theory Spec2Isabelle
  imports Complex_Main
begin

section \<open>The cube reprojection notebook\<close>

text \<open>
  The repository is one notebook, \<^verbatim>\<open>SpectralCubeReprojectExample.ipynb\<close>: a linear
  sequence of code cells that call spectral-cube, astropy, radio-beam and numpy. The
  notebook's namespace is a record of optional values (a name that has not been assigned
  yet reads as \<^verbatim>\<open>NameError\<close>), every code cell is a function from the namespace to an
  error or the updated namespace, and running the notebook runs its cells top to bottom
  and stops at the first error.

  The libraries are not part of the repository. Their functions are the fields of the
  record \<open>lib\<close>, over types of cubes, beams, kernels, header values, images and
  download states that stay abstract; the notebook is verified for every such library.
  Library calls are taken to return (a call that raises inside the library is outside
  the model). What numpy and Python themselves do on the notebook's own expressions
  (differences, indexing, minimum and maximum, the power \<^verbatim>\<open>** 0.5\<close>, item lookup in a
  header) is written out, errors included.

  Floating-point numbers are modelled by the real numbers they approximate, together
  with the special values infinity and NaN; rounding and overflow are not modelled. The
  velocity cubes carry their spectral axis in km/s (the unit the notebook asks for), so
  the quantities of Step 4 are represented by their magnitudes in km/s.
\<close>

subsection \<open>Values\<close>

datatype py_error = NameError | IndexError | ValueError | KeyError

datatype flt = Fin real | PosInf | NegInf | NaN

datatype astro_unit = GHz | km_per_s

record quantity =
  qvalue :: real
  qunit :: astro_unit

type_synonym 'h fits_header = "string \<Rightarrow> 'h option"

definition and_then :: "py_error + 'a \<Rightarrow> ('a \<Rightarrow> py_error + 'b) \<Rightarrow> py_error + 'b" where
  "and_then m f = (case m of Inl er \<Rightarrow> Inl er | Inr x \<Rightarrow> f x)"

text \<open>Reading a name of the namespace.\<close>

definition var :: "'a option \<Rightarrow> py_error + 'a" where
  "var v = (case v of None \<Rightarrow> Inl NameError | Some x \<Rightarrow> Inr x)"

subsection \<open>numpy and Python on the notebook's expressions\<close>

text \<open>\<^verbatim>\<open>np.diff(a)\<close>: \<open>out[i] = a[i+1] - a[i]\<close>, one entry shorter than \<open>a\<close>.\<close>

fun np_diff :: "real list \<Rightarrow> real list" where
  "np_diff (x # y # zs) = (y - x) # np_diff (y # zs)"
| "np_diff [x] = []"
| "np_diff [] = []"

text \<open>\<^verbatim>\<open>a[0]\<close> raises IndexError on an array of size 0.\<close>

definition index0 :: "'a list \<Rightarrow> py_error + 'a" where
  "index0 xs = (case xs of [] \<Rightarrow> Inl IndexError | x # _ \<Rightarrow> Inr x)"

text \<open>\<^verbatim>\<open>a.min()\<close> and \<^verbatim>\<open>a.max()\<close> raise ValueError on an array of size 0.\<close>

definition array_min :: "real list \<Rightarrow> py_error + real" where
  "array_min xs = (case xs of [] \<Rightarrow> Inl ValueError | x # rest \<Rightarrow> Inr (fold min rest x))"

definition array_max :: "real list \<Rightarrow> py_error + real" where
  "array_max xs = (case xs of [] \<Rightarrow> Inl ValueError | x # rest \<Rightarrow> Inr (fold max rest x))"

text \<open>\<^verbatim>\<open>x ** 0.5\<close> on a numpy float: NaN for a negative \<open>x\<close>.\<close>

definition pow_half :: "real \<Rightarrow> flt" where
  "pow_half x = (if x < 0 then NaN else Fin (sqrt x))"

text \<open>Division of a float by a finite float.\<close>

definition flt_div :: "flt \<Rightarrow> real \<Rightarrow> flt" where
  "flt_div a d =
     (case a of
        Fin x \<Rightarrow>
          if d \<noteq> 0 then Fin (x / d)
          else if 0 < x then PosInf else if x < 0 then NegInf else NaN
      | PosInf \<Rightarrow> (if 0 \<le> d then PosInf else NegInf)
      | NegInf \<Rightarrow> (if 0 \<le> d then NegInf else PosInf)
      | NaN \<Rightarrow> NaN)"

text \<open>\<^verbatim>\<open>hdr[key]\<close> raises KeyError when the header has no such card.\<close>

definition getitem :: "'h fits_header \<Rightarrow> string \<Rightarrow> py_error + 'h" where
  "getitem hdr key = (case hdr key of None \<Rightarrow> Inl KeyError | Some v \<Rightarrow> Inr v)"

text \<open>\<^verbatim>\<open>hdr[key] = v\<close>.\<close>

definition setitem :: "'h fits_header \<Rightarrow> string \<Rightarrow> 'h \<Rightarrow> 'h fits_header" where
  "setitem hdr key v = hdr(key \<mapsto> v)"

subsection \<open>The library interface\<close>

text \<open>
  One field per library function the notebook calls, arguments in the order of the call.
  \<open>download_file url cache\<close> acts on the state of the download cache and the network;
  \<open>SpectralCube_read filename use_dask\<close> has \<open>None\<close> where the notebook leaves
  \<^verbatim>\<open>use_dask\<close> out; \<open>header\<close> is the \<^verbatim>\<open>.header\<close> property, which by the
  notebook's own comment hands out a copy, so it is a function to a header value;
  \<open>spectral_interpolate\<close> takes the target grid and \<^verbatim>\<open>suppress_smooth_warning\<close>.
\<close>

record ('c, 'b, 'k, 'h, 'i, 'w) lib =
  download_file :: "string \<Rightarrow> bool \<Rightarrow> 'w \<Rightarrow> string \<times> 'w"
  SpectralCube_read :: "string \<Rightarrow> bool option \<Rightarrow> 'c"
  with_spectral_unit :: "'c \<Rightarrow> astro_unit \<Rightarrow> string \<Rightarrow> quantity \<Rightarrow> 'c"
  spectral_axis :: "'c \<Rightarrow> real list"
  max_axis0 :: "'c \<Rightarrow> 'i"
  spectral_slab :: "'c \<Rightarrow> real \<Rightarrow> real \<Rightarrow> 'c"
  Gaussian1DKernel :: "flt \<Rightarrow> 'k"
  spectral_smooth :: "'c \<Rightarrow> 'k \<Rightarrow> 'c"
  spectral_interpolate :: "'c \<Rightarrow> real list \<Rightarrow> bool \<Rightarrow> 'c"
  beam :: "'c \<Rightarrow> 'b"
  common_2beams :: "'b list \<Rightarrow> 'b"
  convolve_to :: "'c \<Rightarrow> 'b \<Rightarrow> 'c"
  header :: "'c \<Rightarrow> 'h fits_header"
  reproject :: "'c \<Rightarrow> 'h fits_header \<Rightarrow> 'c"

subsection \<open>The namespace\<close>

record ('c, 'b, 'k, 'h, 'i, 'w) env =
  world :: 'w
  filename_1 :: "string option"
  filename_2 :: "string option"
  cube1 :: "'c option"
  cube2 :: "'c option"
  cube1vel :: "'c option"
  cube2vel :: "'c option"
  mx :: "'i option"
  velocity_res_1 :: "real option"
  velocity_res_2 :: "real option"
  cube2vel_cutout :: "'c option"
  fwhm_gaussian :: "flt option"
  fwhm_to_sigma :: "real option"
  spectral_smoothing_kernel :: "'k option"
  cube2vel_smooth :: "'c option"
  cube2vel_spectralresample :: "'c option"
  common_beam :: "'b option"
  cube2vel_spatialspectralsmooth :: "'c option"
  tgthdr :: "'h fits_header option"
  cube2vel_reproj :: "'c option"
  cube2dask :: "'c option"
  cube2daskvel :: "'c option"
  cube2daskvel_cutout :: "'c option"
  cube2daskvel_smooth :: "'c option"
  cube2daskvel_spectralresample :: "'c option"
  cube2daskvel_spatialspectralsmooth :: "'c option"
  cube2daskvel_reproj :: "'c option"

definition empty_env :: "'w \<Rightarrow> ('c, 'b, 'k, 'h, 'i, 'w) env" where
  "empty_env w =
     \<lparr>world = w, filename_1 = None, filename_2 = None, cube1 = None, cube2 = None,
      cube1vel = None, cube2vel = None, mx = None, velocity_res_1 = None,
      velocity_res_2 = None, cube2vel_cutout = None, fwhm_gaussian = None,
      fwhm_to_sigma = None, spectral_smoothing_kernel = None, cube2vel_smooth = None,
      cube2vel_spectralresample = None, common_beam = None,
      cube2vel_spatialspectralsmooth = None, tgthdr = None, cube2vel_reproj = None,
      cube2dask = None, cube2daskvel = None, cube2daskvel_cutout = None,
      cube2daskvel_smooth = None, cube2daskvel_spectralresample = None,
      cube2daskvel_spatialspectralsmooth = None, cube2daskvel_reproj = None\<rparr>"

text \<open>
  A cell that ends in a bare expression, or only plots or prints, reads its names and
  leaves the namespace as it is.
\<close>

definition shown :: "'a option \<Rightarrow> 'e \<Rightarrow> py_error + 'e" where
  "shown v e = and_then (var v) (\<lambda>_. Inr e)"

subsection \<open>The cells\<close>

text \<open>Cells are named by their position in the notebook file. Step 1: download.\<close>

definition url_1 :: string where
  "url_1 = ''https://almascience.eso.org/dataPortal/member.uid___A001_X1465_X3a33.BrickMaser_sci.spw71.cube.I.manual.image.pbcor.fits''"

definition url_2 :: string where
  "url_2 = ''https://almascience.eso.org/dataPortal/member.uid___A001_X87d_X141.a_sma1_sci.spw27.cube.I.pbcor.fits''"

definition cell_5 ::
  "('c, 'b, 'k, 'h, 'i, 'w) lib \<Rightarrow> ('c, 'b, 'k, 'h, 'i, 'w) env \<Rightarrow> py_error + ('c, 'b, 'k, 'h, 'i, 'w) env" where
  "cell_5 L e =
     (case download_file L url_1 True (world e) of
        (f, w) \<Rightarrow> Inr (e\<lparr>filename_1 := Some f, world := w\<rparr>))"

definition cell_6 ::
  "('c, 'b, 'k, 'h, 'i, 'w) lib \<Rightarrow> ('c, 'b, 'k, 'h, 'i, 'w) env \<Rightarrow> py_error + ('c, 'b, 'k, 'h, 'i, 'w) env" where
  "cell_6 L e =
     (case download_file L url_2 True (world e) of
        (f, w) \<Rightarrow> Inr (e\<lparr>filename_2 := Some f, world := w\<rparr>))"

text \<open>Step 2: load the cubes; the \<^verbatim>\<open>find_lines\<close> cells only show a table.\<close>

definition cell_9 ::
  "('c, 'b, 'k, 'h, 'i, 'w) lib \<Rightarrow> ('c, 'b, 'k, 'h, 'i, 'w) env \<Rightarrow> py_error + ('c, 'b, 'k, 'h, 'i, 'w) env" where
  "cell_9 L e =
     and_then (var (filename_1 e)) (\<lambda>f.
     Inr (e\<lparr>cube1 := Some (SpectralCube_read L f None)\<rparr>))"

definition cell_10 ::
  "('c, 'b, 'k, 'h, 'i, 'w) lib \<Rightarrow> ('c, 'b, 'k, 'h, 'i, 'w) env \<Rightarrow> py_error + ('c, 'b, 'k, 'h, 'i, 'w) env" where
  "cell_10 L e =
     and_then (var (filename_2 e)) (\<lambda>f.
     Inr (e\<lparr>cube2 := Some (SpectralCube_read L f None)\<rparr>))"

definition cell_13 ::
  "('c, 'b, 'k, 'h, 'i, 'w) lib \<Rightarrow> ('c, 'b, 'k, 'h, 'i, 'w) env \<Rightarrow> py_error + ('c, 'b, 'k, 'h, 'i, 'w) env" where
  "cell_13 L e = shown (cube1 e) e"

definition cell_14 ::
  "('c, 'b, 'k, 'h, 'i, 'w) lib \<Rightarrow> ('c, 'b, 'k, 'h, 'i, 'w) env \<Rightarrow> py_error + ('c, 'b, 'k, 'h, 'i, 'w) env" where
  "cell_14 L e = shown (cube2 e) e"

text \<open>Step 3: frequency to velocity.\<close>

definition rest_value_1 :: quantity where
  "rest_value_1 = \<lparr>qvalue = 139.483699, qunit = GHz\<rparr>"

definition rest_value_2 :: quantity where
  "rest_value_2 = \<lparr>qvalue = 217.104984, qunit = GHz\<rparr>"

definition cell_17 ::
  "('c, 'b, 'k, 'h, 'i, 'w) lib \<Rightarrow> ('c, 'b, 'k, 'h, 'i, 'w) env \<Rightarrow> py_error + ('c, 'b, 'k, 'h, 'i, 'w) env" where
  "cell_17 L e =
     and_then (var (cube1 e)) (\<lambda>c.
     Inr (e\<lparr>cube1vel := Some (with_spectral_unit L c km_per_s ''radio'' rest_value_1)\<rparr>))"

definition cell_18 ::
  "('c, 'b, 'k, 'h, 'i, 'w) lib \<Rightarrow> ('c, 'b, 'k, 'h, 'i, 'w) env \<Rightarrow> py_error + ('c, 'b, 'k, 'h, 'i, 'w) env" where
  "cell_18 L e =
     and_then (var (cube2 e)) (\<lambda>c.
     Inr (e\<lparr>cube2vel := Some (with_spectral_unit L c km_per_s ''radio'' rest_value_2)\<rparr>))"

definition cell_21 ::
  "('c, 'b, 'k, 'h, 'i, 'w) lib \<Rightarrow> ('c, 'b, 'k, 'h, 'i, 'w) env \<Rightarrow> py_error + ('c, 'b, 'k, 'h, 'i, 'w) env" where
  "cell_21 L e =
     and_then (var (cube1 e)) (\<lambda>c.
     Inr (e\<lparr>mx := Some (max_axis0 L c)\<rparr>))"

definition cell_23 ::
  "('c, 'b, 'k, 'h, 'i, 'w) lib \<Rightarrow> ('c, 'b, 'k, 'h, 'i, 'w) env \<Rightarrow> py_error + ('c, 'b, 'k, 'h, 'i, 'w) env" where
  "cell_23 L e = shown (cube2 e) e"

text \<open>Step 4: spectral interpolation.\<close>

definition cell_25 ::
  "('c, 'b, 'k, 'h, 'i, 'w) lib \<Rightarrow> ('c, 'b, 'k, 'h, 'i, 'w) env \<Rightarrow> py_error + ('c, 'b, 'k, 'h, 'i, 'w) env" where
  "cell_25 L e =
     and_then (var (cube1vel e)) (\<lambda>c1.
     and_then (index0 (np_diff (spectral_axis L c1))) (\<lambda>v1.
     and_then (var (cube2vel e)) (\<lambda>c2.
     and_then (index0 (np_diff (spectral_axis L c2))) (\<lambda>v2.
     Inr (e\<lparr>velocity_res_1 := Some v1, velocity_res_2 := Some v2\<rparr>)))))"

definition cell_27 ::
  "('c, 'b, 'k, 'h, 'i, 'w) lib \<Rightarrow> ('c, 'b, 'k, 'h, 'i, 'w) env \<Rightarrow> py_error + ('c, 'b, 'k, 'h, 'i, 'w) env" where
  "cell_27 L e =
     and_then (var (cube2vel e)) (\<lambda>c2.
     and_then (var (cube1vel e)) (\<lambda>c1.
     and_then (array_min (spectral_axis L c1)) (\<lambda>lo.
     and_then (array_max (spectral_axis L c1)) (\<lambda>hi.
     Inr (e\<lparr>cube2vel_cutout := Some (spectral_slab L c2 lo hi)\<rparr>)))))"

definition cell_29 ::
  "('c, 'b, 'k, 'h, 'i, 'w) lib \<Rightarrow> ('c, 'b, 'k, 'h, 'i, 'w) env \<Rightarrow> py_error + ('c, 'b, 'k, 'h, 'i, 'w) env" where
  "cell_29 L e =
     and_then (var (cube2vel e)) (\<lambda>c2.
     and_then (var (cube1vel e)) (\<lambda>c1.
     and_then (array_min (spectral_axis L c1)) (\<lambda>lo.
     and_then (var (velocity_res_2 e)) (\<lambda>v2.
     and_then (array_max (spectral_axis L c1)) (\<lambda>hi.
     Inr (e\<lparr>cube2vel_cutout := Some (spectral_slab L c2 (lo - v2) hi)\<rparr>))))))"

text \<open>\<^verbatim>\<open>(velocity_res_1**2 - velocity_res_2**2) ** 0.5\<close>\<close>

definition deconvolved_width :: "real \<Rightarrow> real \<Rightarrow> flt" where
  "deconvolved_width v1 v2 = pow_half (v1\<^sup>2 - v2\<^sup>2)"

definition cell_31 ::
  "('c, 'b, 'k, 'h, 'i, 'w) lib \<Rightarrow> ('c, 'b, 'k, 'h, 'i, 'w) env \<Rightarrow> py_error + ('c, 'b, 'k, 'h, 'i, 'w) env" where
  "cell_31 L e =
     and_then (var (velocity_res_1 e)) (\<lambda>v1.
     and_then (var (velocity_res_2 e)) (\<lambda>v2.
     Inr (e\<lparr>fwhm_gaussian := Some (deconvolved_width v1 v2)\<rparr>)))"

text \<open>\<^verbatim>\<open>np.sqrt(8 * np.log(2))\<close>\<close>

definition sqrt_8_log_2 :: real where
  "sqrt_8_log_2 = sqrt (8 * ln 2)"

text \<open>\<^verbatim>\<open>fwhm_gaussian.to(u.km / u.s).value / fwhm_to_sigma\<close>\<close>

definition kernel_stddev :: "flt \<Rightarrow> real \<Rightarrow> flt" where
  "kernel_stddev fwhm f2s = flt_div fwhm f2s"

definition cell_32 ::
  "('c, 'b, 'k, 'h, 'i, 'w) lib \<Rightarrow> ('c, 'b, 'k, 'h, 'i, 'w) env \<Rightarrow> py_error + ('c, 'b, 'k, 'h, 'i, 'w) env" where
  "cell_32 L e =
     (let e1 = e\<lparr>fwhm_to_sigma := Some sqrt_8_log_2\<rparr> in
      and_then (var (fwhm_gaussian e1)) (\<lambda>fwhm.
      and_then (var (fwhm_to_sigma e1)) (\<lambda>f2s.
      Inr (e1\<lparr>spectral_smoothing_kernel :=
                 Some (Gaussian1DKernel L (kernel_stddev fwhm f2s))\<rparr>))))"

definition cell_34 ::
  "('c, 'b, 'k, 'h, 'i, 'w) lib \<Rightarrow> ('c, 'b, 'k, 'h, 'i, 'w) env \<Rightarrow> py_error + ('c, 'b, 'k, 'h, 'i, 'w) env" where
  "cell_34 L e =
     and_then (var (cube2vel_cutout e)) (\<lambda>c.
     and_then (var (spectral_smoothing_kernel e)) (\<lambda>k.
     Inr (e\<lparr>cube2vel_smooth := Some (spectral_smooth L c k)\<rparr>)))"

definition cell_36 ::
  "('c, 'b, 'k, 'h, 'i, 'w) lib \<Rightarrow> ('c, 'b, 'k, 'h, 'i, 'w) env \<Rightarrow> py_error + ('c, 'b, 'k, 'h, 'i, 'w) env" where
  "cell_36 L e =
     and_then (var (cube2vel_smooth e)) (\<lambda>c.
     and_then (var (cube1vel e)) (\<lambda>c1.
     Inr (e\<lparr>cube2vel_spectralresample :=
               Some (spectral_interpolate L c (spectral_axis L c1) True)\<rparr>)))"

text \<open>Step 5: spatial smoothing.\<close>

definition cell_40 ::
  "('c, 'b, 'k, 'h, 'i, 'w) lib \<Rightarrow> ('c, 'b, 'k, 'h, 'i, 'w) env \<Rightarrow> py_error + ('c, 'b, 'k, 'h, 'i, 'w) env" where
  "cell_40 L e =
     and_then (shown (cube1vel e) e) (\<lambda>e1. shown (cube2vel_spectralresample e1) e1)"

definition cell_43 ::
  "('c, 'b, 'k, 'h, 'i, 'w) lib \<Rightarrow> ('c, 'b, 'k, 'h, 'i, 'w) env \<Rightarrow> py_error + ('c, 'b, 'k, 'h, 'i, 'w) env" where
  "cell_43 L e =
     and_then (var (cube1vel e)) (\<lambda>c1.
     and_then (var (cube2vel e)) (\<lambda>c2.
     Inr (e\<lparr>common_beam := Some (common_2beams L [beam L c1, beam L c2])\<rparr>)))"

definition cell_45 ::
  "('c, 'b, 'k, 'h, 'i, 'w) lib \<Rightarrow> ('c, 'b, 'k, 'h, 'i, 'w) env \<Rightarrow> py_error + ('c, 'b, 'k, 'h, 'i, 'w) env" where
  "cell_45 L e =
     and_then (var (cube2vel_spectralresample e)) (\<lambda>c.
     and_then (var (common_beam e)) (\<lambda>b.
     Inr (e\<lparr>cube2vel_spatialspectralsmooth := Some (convolve_to L c b)\<rparr>)))"

text \<open>Step 6: reprojection.\<close>

definition cell_47 ::
  "('c, 'b, 'k, 'h, 'i, 'w) lib \<Rightarrow> ('c, 'b, 'k, 'h, 'i, 'w) env \<Rightarrow> py_error + ('c, 'b, 'k, 'h, 'i, 'w) env" where
  "cell_47 L e =
     and_then (var (cube1vel e)) (\<lambda>c1.
     (let e1 = e\<lparr>tgthdr := Some (header L c1)\<rparr> in
      and_then (var (cube2vel_spatialspectralsmooth e1)) (\<lambda>c.
      and_then (getitem (header L c) ''RESTFRQ'') (\<lambda>v.
      and_then (var (tgthdr e1)) (\<lambda>h.
      (let e2 = e1\<lparr>tgthdr := Some (setitem h ''RESTFRQ'' v)\<rparr> in
       and_then (var (cube2vel_spatialspectralsmooth e2)) (\<lambda>c'.
       and_then (var (tgthdr e2)) (\<lambda>h'.
       Inr (e2\<lparr>cube2vel_reproj := Some (reproject L c' h')\<rparr>)))))))))"

definition cell_49 ::
  "('c, 'b, 'k, 'h, 'i, 'w) lib \<Rightarrow> ('c, 'b, 'k, 'h, 'i, 'w) env \<Rightarrow> py_error + ('c, 'b, 'k, 'h, 'i, 'w) env" where
  "cell_49 L e =
     and_then (shown (cube2vel_reproj e) e) (\<lambda>e1. shown (cube1vel e1) e1)"

definition cell_51 ::
  "('c, 'b, 'k, 'h, 'i, 'w) lib \<Rightarrow> ('c, 'b, 'k, 'h, 'i, 'w) env \<Rightarrow> py_error + ('c, 'b, 'k, 'h, 'i, 'w) env" where
  "cell_51 L e =
     and_then (shown (cube1vel e) e) (\<lambda>e1. shown (cube2vel_reproj e1) e1)"

text \<open>The same sequence on a dask-backed cube.\<close>

definition cell_55 ::
  "('c, 'b, 'k, 'h, 'i, 'w) lib \<Rightarrow> ('c, 'b, 'k, 'h, 'i, 'w) env \<Rightarrow> py_error + ('c, 'b, 'k, 'h, 'i, 'w) env" where
  "cell_55 L e =
     and_then (var (filename_2 e)) (\<lambda>f.
     (let d0 = SpectralCube_read L f (Some True);
          d1 = with_spectral_unit L d0 km_per_s ''radio'' rest_value_2 in
      and_then (var (cube1vel e)) (\<lambda>c1.
      and_then (array_min (spectral_axis L c1)) (\<lambda>lo.
      and_then (var (velocity_res_2 e)) (\<lambda>v2.
      and_then (array_max (spectral_axis L c1)) (\<lambda>hi.
      (let d2 = spectral_slab L d1 (lo - v2) hi in
       and_then (var (spectral_smoothing_kernel e)) (\<lambda>k.
       (let d3 = spectral_smooth L d2 k;
            d4 = spectral_interpolate L d3 (spectral_axis L c1) True in
        and_then (var (common_beam e)) (\<lambda>b.
        (let d5 = convolve_to L d4 b in
         and_then (var (tgthdr e)) (\<lambda>h.
         Inr (e\<lparr>cube2dask := Some d0, cube2daskvel := Some d1,
                cube2daskvel_cutout := Some d2, cube2daskvel_smooth := Some d3,
                cube2daskvel_spectralresample := Some d4,
                cube2daskvel_spatialspectralsmooth := Some d5,
                cube2daskvel_reproj := Some (reproject L d5 h)\<rparr>)))))))))))))"

subsection \<open>Running the notebook\<close>

fun run_cells :: "('e \<Rightarrow> py_error + 'e) list \<Rightarrow> 'e \<Rightarrow> py_error + 'e" where
  "run_cells [] e = Inr e"
| "run_cells (c # cs) e = and_then (c e) (run_cells cs)"

text \<open>The code cells in file order; import cells and the empty last cell do nothing.\<close>

definition notebook_cells ::
  "('c, 'b, 'k, 'h, 'i, 'w) lib \<Rightarrow>
   (('c, 'b, 'k, 'h, 'i, 'w) env \<Rightarrow> py_error + ('c, 'b, 'k, 'h, 'i, 'w) env) list" where
  "notebook_cells L =
     [cell_5 L, cell_6 L, cell_9 L, cell_10 L, cell_13 L, cell_14 L, cell_17 L, cell_18 L,
      cell_21 L, cell_23 L, cell_25 L, cell_27 L, cell_29 L, cell_31 L, cell_32 L,
      cell_34 L, cell_36 L, cell_40 L, cell_43 L, cell_45 L, cell_47 L, cell_49 L,
      cell_51 L, cell_55 L]"

definition run_notebook ::
  "('c, 'b, 'k, 'h, 'i, 'w) lib \<Rightarrow> 'w \<Rightarrow> py_error + ('c, 'b, 'k, 'h, 'i, 'w) env" where
  "run_notebook L w = run_cells (notebook_cells L) (empty_env w)"

subsection \<open>Library contracts\<close>

text \<open>
  What the libraries do inside a call is not in the repository. Where a property of the
  notebook rests on it, the behaviour of the call is stated as a contract on the library
  and appears as a hypothesis of the theorem.
\<close>

text \<open>
  Modelled from the spec: astropy's \<^verbatim>\<open>download_file\<close> is not in the repository.
  With \<^verbatim>\<open>cache=True\<close>, a URL that is in the cache is answered from the cache, with
  nothing downloaded and the cache left as it is (a warm cache performs no new download
  and yields the same filename); any other URL is downloaded once and entered in the
  cache under its local filename. \<open>cached\<close> reads the cache of a download state and
  \<open>fetched\<close> its log of downloads.
\<close>

definition cache_contract ::
  "(string \<Rightarrow> bool \<Rightarrow> 'w \<Rightarrow> string \<times> 'w) \<Rightarrow> ('w \<Rightarrow> string \<Rightarrow> string option) \<Rightarrow>
   ('w \<Rightarrow> string list) \<Rightarrow> bool" where
  "cache_contract dl cached fetched \<longleftrightarrow>
     (\<forall>u w.
        case dl u True w of
          (f, w') \<Rightarrow>
            (case cached w u of
               Some g \<Rightarrow> f = g \<and> cached w' = cached w \<and> fetched w' = fetched w
             | None \<Rightarrow> cached w' = (cached w)(u \<mapsto> f) \<and> fetched w' = fetched w @ [u]))"

text \<open>
  Modelled from the spec: radio-beam's \<^verbatim>\<open>common_2beams\<close> is not in the repository.
  The common beam is the smallest beam that is simultaneously larger than or equal to
  the input beams: at least as large as each of the two (\<open>le\<close>) and, among all such
  beams, of smallest \<open>area\<close>.
\<close>

definition common_beam_contract ::
  "('b \<Rightarrow> 'b \<Rightarrow> bool) \<Rightarrow> ('b \<Rightarrow> real) \<Rightarrow> ('b list \<Rightarrow> 'b) \<Rightarrow> bool" where
  "common_beam_contract le area cb2 \<longleftrightarrow>
     (\<forall>a b. le a (cb2 [a, b]) \<and> le b (cb2 [a, b]) \<and>
            (\<forall>c. le a c \<and> le b c \<longrightarrow> area (cb2 [a, b]) \<le> area c))"

text \<open>
  Modelled from the spec: the order ``larger than or equal to'' on beams, which radio-beam
  decides. Every beam is at least as large as itself, and a beam that is at least as
  large as another and has no more area is that beam.
\<close>

definition beam_order :: "('b \<Rightarrow> 'b \<Rightarrow> bool) \<Rightarrow> ('b \<Rightarrow> real) \<Rightarrow> bool" where
  "beam_order le area \<longleftrightarrow>
     (\<forall>a. le a a) \<and> (\<forall>a b. le a b \<and> area b \<le> area a \<longrightarrow> a = b)"

text \<open>
  Modelled from the spec: spectral-cube's \<^verbatim>\<open>spectral_interpolate\<close> is not in the
  repository. It resamples a cube onto the spectral grid it is given: the result has
  that grid as its spectral axis, and the spatial axes (an observation \<open>spatial\<close> of
  them) of the cube it started from.
\<close>

definition resamples_onto_grid ::
  "('c \<Rightarrow> 's) \<Rightarrow> ('c, 'b, 'k, 'h, 'i, 'w) lib \<Rightarrow> bool" where
  "resamples_onto_grid spatial L \<longleftrightarrow>
     (\<forall>c g s. spectral_axis L (spectral_interpolate L c g s) = g \<and>
              spatial (spectral_interpolate L c g s) = spatial c)"


subsection \<open>A small library instance\<close>

text \<open>
  An instance of the interface on which the notebook can be evaluated: a cube is a record
  of its backend, spectral axis, spatial shape, data, beam, rest frequency and the list
  of the operations that produced it; beams are circular, given by their radius; the download
  state is a cache (an association list) and a log. It stands in for no real library:
  it shows that the hypotheses of the theorems below can be met together.
\<close>

record demo_cube =
  dc_dask :: bool
  dc_axis :: "real list"
  dc_shape :: "nat \<times> nat"
  dc_data :: "real list"
  dc_beam :: nat
  dc_rest :: real
  dc_ops :: "string list"

type_synonym demo_world = "(string \<times> string) list \<times> string list"

definition demo_download :: "string \<Rightarrow> bool \<Rightarrow> demo_world \<Rightarrow> string \<times> demo_world" where
  "demo_download u c w =
     (if c then
        (case map_of (fst w) u of
           Some f \<Rightarrow> (f, w)
         | None \<Rightarrow> (''cache/'' @ u, ((u, ''cache/'' @ u) # fst w, snd w @ [u])))
      else (''tmp/'' @ u, (fst w, snd w @ [u])))"

definition demo_read :: "string \<Rightarrow> bool option \<Rightarrow> demo_cube" where
  "demo_read f d =
     (if f = ''cache/'' @ url_1 then
        \<lparr>dc_dask = (d = Some True), dc_axis = [0, 5, 10], dc_shape = (4, 4),
         dc_data = [1, 2, 3], dc_beam = 3, dc_rest = 139.5, dc_ops = [''read'']\<rparr>
      else
        \<lparr>dc_dask = (d = Some True), dc_axis = [- 3, 0, 3, 6, 9, 12], dc_shape = (2, 2),
         dc_data = [4, 5, 6, 7, 8, 9], dc_beam = 2, dc_rest = 217.1, dc_ops = [''read'']\<rparr>)"

definition demo_header :: "demo_cube \<Rightarrow> real fits_header" where
  "demo_header c =
     [''NAXIS1'' \<mapsto> real (fst (dc_shape c)), ''NAXIS2'' \<mapsto> real (snd (dc_shape c)),
      ''NAXIS3'' \<mapsto> real (length (dc_axis c)), ''RESTFRQ'' \<mapsto> dc_rest c]"

text \<open>Reprojection takes the spatial shape and the rest frequency from the target header.\<close>

definition demo_reproject :: "demo_cube \<Rightarrow> real fits_header \<Rightarrow> demo_cube" where
  "demo_reproject c h =
     c\<lparr>dc_shape :=
         (case (h ''NAXIS1'', h ''NAXIS2'') of
            (Some a, Some b) \<Rightarrow> (nat \<lfloor>a\<rfloor>, nat \<lfloor>b\<rfloor>)
          | _ \<Rightarrow> dc_shape c),
       dc_rest := (case h ''RESTFRQ'' of Some r \<Rightarrow> r | None \<Rightarrow> dc_rest c),
       dc_ops := dc_ops c @ [''reproject'']\<rparr>"

definition demo_lib :: "(demo_cube, nat, flt, real, real, demo_world) lib" where
  "demo_lib =
     \<lparr>download_file = demo_download,
      SpectralCube_read = demo_read,
      with_spectral_unit =
        (\<lambda>c u v r. c\<lparr>dc_rest := qvalue r, dc_ops := dc_ops c @ [''with_spectral_unit'']\<rparr>),
      spectral_axis = dc_axis,
      max_axis0 = (\<lambda>c. fold max (dc_data c) 0),
      spectral_slab =
        (\<lambda>c lo hi. c\<lparr>dc_axis := filter (\<lambda>x. lo \<le> x \<and> x \<le> hi) (dc_axis c),
                     dc_ops := dc_ops c @ [''spectral_slab'']\<rparr>),
      Gaussian1DKernel = (\<lambda>s. s),
      spectral_smooth = (\<lambda>c k. c\<lparr>dc_ops := dc_ops c @ [''spectral_smooth'']\<rparr>),
      spectral_interpolate =
        (\<lambda>c g s. c\<lparr>dc_axis := g, dc_ops := dc_ops c @ [''spectral_interpolate'']\<rparr>),
      beam = dc_beam,
      common_2beams = (\<lambda>bs. fold max bs 0),
      convolve_to = (\<lambda>c b. c\<lparr>dc_beam := b, dc_ops := dc_ops c @ [''convolve_to'']\<rparr>),
      header = demo_header,
      reproject = demo_reproject\<rparr>"

section \<open>Properties\<close>

subsection \<open>Running the cells\<close>

lemmas cell_defs = cell_5_def cell_6_def cell_9_def cell_10_def cell_13_def cell_14_def
  cell_17_def cell_18_def cell_21_def cell_23_def cell_25_def cell_27_def cell_29_def
  cell_31_def cell_32_def cell_34_def cell_36_def cell_40_def cell_43_def cell_45_def
  cell_47_def cell_49_def cell_51_def cell_55_def

lemma and_then_Inr_iff: "and_then m f = Inr y \<longleftrightarrow> (\<exists>x. m = Inr x \<and> f x = Inr y)"
  by (cases m) (simp_all add: and_then_def)

lemma var_simps [simp]: "var (Some x) = Inr x" "var None = Inl NameError"
  by (simp_all add: var_def)

lemma and_then_simps [simp]: "and_then (Inr x) f = f x" "and_then (Inl er) f = Inl er"
  by (simp_all add: and_then_def)

text \<open>
  A run that reaches the end has assigned every name; each is given here in terms of the
  library calls that produced it.
\<close>

lemma run_notebook_InrD:
  assumes "run_notebook L w = Inr e"
  shows "\<exists>f1 w1 f2 w2 c1 c2 c1v c2v v1 v2 lo hi cut fw k sm rs cb css rf th d0 d1 d2 d3 d4 d5.
    download_file L url_1 True w = (f1, w1) \<and>
    download_file L url_2 True w1 = (f2, w2) \<and>
    c1 = SpectralCube_read L f1 None \<and>
    c2 = SpectralCube_read L f2 None \<and>
    c1v = with_spectral_unit L c1 km_per_s ''radio'' rest_value_1 \<and>
    c2v = with_spectral_unit L c2 km_per_s ''radio'' rest_value_2 \<and>
    index0 (np_diff (spectral_axis L c1v)) = Inr v1 \<and>
    index0 (np_diff (spectral_axis L c2v)) = Inr v2 \<and>
    array_min (spectral_axis L c1v) = Inr lo \<and>
    array_max (spectral_axis L c1v) = Inr hi \<and>
    cut = spectral_slab L c2v (lo - v2) hi \<and>
    fw = deconvolved_width v1 v2 \<and>
    k = Gaussian1DKernel L (kernel_stddev fw sqrt_8_log_2) \<and>
    sm = spectral_smooth L cut k \<and>
    rs = spectral_interpolate L sm (spectral_axis L c1v) True \<and>
    cb = common_2beams L [beam L c1v, beam L c2v] \<and>
    css = convolve_to L rs cb \<and>
    getitem (header L css) ''RESTFRQ'' = Inr rf \<and>
    th = setitem (header L c1v) ''RESTFRQ'' rf \<and>
    d0 = SpectralCube_read L f2 (Some True) \<and>
    d1 = with_spectral_unit L d0 km_per_s ''radio'' rest_value_2 \<and>
    d2 = spectral_slab L d1 (lo - v2) hi \<and>
    d3 = spectral_smooth L d2 k \<and>
    d4 = spectral_interpolate L d3 (spectral_axis L c1v) True \<and>
    d5 = convolve_to L d4 cb \<and>
    world e = w2 \<and> filename_1 e = Some f1 \<and> filename_2 e = Some f2 \<and>
    cube1 e = Some c1 \<and> cube2 e = Some c2 \<and> cube1vel e = Some c1v \<and>
    cube2vel e = Some c2v \<and> mx e = Some (max_axis0 L c1) \<and>
    velocity_res_1 e = Some v1 \<and> velocity_res_2 e = Some v2 \<and>
    cube2vel_cutout e = Some cut \<and> fwhm_gaussian e = Some fw \<and>
    fwhm_to_sigma e = Some sqrt_8_log_2 \<and> spectral_smoothing_kernel e = Some k \<and>
    cube2vel_smooth e = Some sm \<and> cube2vel_spectralresample e = Some rs \<and>
    common_beam e = Some cb \<and> cube2vel_spatialspectralsmooth e = Some css \<and>
    tgthdr e = Some th \<and> cube2vel_reproj e = Some (reproject L css th) \<and>
    cube2dask e = Some d0 \<and> cube2daskvel e = Some d1 \<and>
    cube2daskvel_cutout e = Some d2 \<and> cube2daskvel_smooth e = Some d3 \<and>
    cube2daskvel_spectralresample e = Some d4 \<and>
    cube2daskvel_spatialspectralsmooth e = Some d5 \<and>
    cube2daskvel_reproj e = Some (reproject L d5 th)"
  using assms
  unfolding run_notebook_def notebook_cells_def
  by (auto simp: cell_defs empty_env_def shown_def Let_def and_then_Inr_iff split: prod.splits)

text \<open>
  The run reaches the end for every library whose velocity cubes have at least two
  channels and whose headers carry \<^verbatim>\<open>RESTFRQ\<close>: the two places where the notebook's own
  expressions can raise are the index into the channel differences and the header lookup.
\<close>

lemma array_min_Inr: "xs \<noteq> [] \<Longrightarrow> array_min xs = Inr (fold min (tl xs) (hd xs))"
  by (cases xs) (simp_all add: array_min_def)

lemma array_max_Inr: "xs \<noteq> [] \<Longrightarrow> array_max xs = Inr (fold max (tl xs) (hd xs))"
  by (cases xs) (simp_all add: array_max_def)

lemma index0_np_diff:
  "index0 (np_diff xs) = (if 2 \<le> length xs then Inr (xs ! 1 - xs ! 0) else Inl IndexError)"
proof (cases xs)
  case Nil
  then show ?thesis by (simp add: index0_def)
next
  case (Cons x ys)
  then show ?thesis by (cases ys) (simp_all add: index0_def)
qed

lemma run_notebook_reaches_end:
  assumes "\<forall>f r. 2 \<le> length (spectral_axis L
              (with_spectral_unit L (SpectralCube_read L f None) km_per_s ''radio'' r))"
    and "\<forall>c. header L c ''RESTFRQ'' \<noteq> None"
  shows "\<exists>e. run_notebook L w = Inr e"
proof -
  have len: "2 \<le> length (spectral_axis L
              (with_spectral_unit L (SpectralCube_read L f None) km_per_s ''radio'' r))" for f r
    using assms(1) by blast
  have ne: "spectral_axis L
              (with_spectral_unit L (SpectralCube_read L f None) km_per_s ''radio'' r) \<noteq> []" for f r
    using len [of f r] by auto
  have hdr: "\<exists>v. header L c ''RESTFRQ'' = Some v" for c
    using assms(2) by auto
  have get: "getitem (header L c) ''RESTFRQ'' = Inr (the (header L c ''RESTFRQ''))" for c
    using hdr [of c] by (auto simp: getitem_def)
  show ?thesis
    unfolding run_notebook_def notebook_cells_def
    by (simp add: cell_defs empty_env_def shown_def Let_def index0_np_diff len
        array_min_Inr [OF ne] array_max_Inr [OF ne] get split: prod.splits)
qed

text \<open>On the small library instance, from an empty cache, the notebook runs to the end.\<close>

lemma demo_run: "\<exists>e. run_notebook demo_lib ([], []) = Inr e"
  unfolding run_notebook_def notebook_cells_def
  by (simp add: cell_defs empty_env_def shown_def Let_def demo_lib_def demo_download_def
      demo_read_def demo_header_def demo_reproject_def index0_def array_min_def array_max_def getitem_def
      setitem_def url_1_def url_2_def)

lemma demo_run_values:
  assumes "run_notebook demo_lib ([], []) = Inr e"
  shows "velocity_res_1 e = Some 5" and "velocity_res_2 e = Some 3"
    and "world e = ([(url_2, ''cache/'' @ url_2), (url_1, ''cache/'' @ url_1)], [url_1, url_2])"
    and "filename_1 e = Some (''cache/'' @ url_1)" and "filename_2 e = Some (''cache/'' @ url_2)"
  using assms unfolding run_notebook_def notebook_cells_def
  by (auto simp add: cell_defs empty_env_def shown_def Let_def demo_lib_def demo_download_def
      demo_read_def demo_header_def demo_reproject_def index0_def array_min_def array_max_def
      getitem_def setitem_def url_1_def url_2_def)

subsection \<open>The order of the operations\<close>

text \<open>
  Claim C1. In every run that reaches the end, and for every library, the reprojected
  second cube is the result of exactly this chain of calls on the second cube as read
  from its file, each call with exactly these arguments:
  \<^item> conversion to velocity: km/s, radio convention, rest value 217.104984 GHz;
  \<^item> spectral slab from \<open>lb\<close> to \<open>hi\<close>, where \<open>lo\<close> and \<open>hi\<close> are the minimum and
    maximum of the spectral axis of the first velocity cube (the first cube converted
    with rest value 139.483699 GHz) and \<open>lb = lo - v2\<close>, with \<open>v2\<close> the first channel
    spacing of the second velocity cube as \<^verbatim>\<open>np.diff\<close> gives it, sign included;
  \<^item> spectral smoothing with the Gaussian kernel whose standard deviation is the
    deconvolved width of the two first channel spacings over \<open>sqrt (8 * ln 2)\<close>;
  \<^item> spectral interpolation onto the spectral axis of the first velocity cube;
  \<^item> convolution to \<^verbatim>\<open>common_2beams\<close> of the beams of the two velocity cubes;
  \<^item> reprojection onto the header of the first velocity cube with its \<^verbatim>\<open>RESTFRQ\<close>
    replaced by that of the convolved second cube.

  The spectral calls are the inner ones, the spatial calls the outer ones. The lower
  bound of the slab lies one channel spacing below the first cube's velocity range when
  the spacing \<open>v2\<close> is positive. When \<open>v2\<close> is negative (the second cube's velocity
  axis descends) it lies above the minimum: the slab is cut inward, where the notebook's
  text announces a buffer.
\<close>

theorem pipeline_order:
  assumes "run_notebook L w = Inr e"
  shows "\<exists>f1 f2 c1v c2v v1 v2 lo hi lb sd cb css rf th.
     filename_1 e = Some f1 \<and> filename_2 e = Some f2 \<and>
     cube1vel e = Some c1v \<and>
     c1v = with_spectral_unit L (SpectralCube_read L f1 None) km_per_s ''radio''
             \<lparr>qvalue = 139.483699, qunit = GHz\<rparr> \<and>
     cube2vel e = Some c2v \<and>
     c2v = with_spectral_unit L (SpectralCube_read L f2 None) km_per_s ''radio''
             \<lparr>qvalue = 217.104984, qunit = GHz\<rparr> \<and>
     index0 (np_diff (spectral_axis L c1v)) = Inr v1 \<and>
     index0 (np_diff (spectral_axis L c2v)) = Inr v2 \<and>
     array_min (spectral_axis L c1v) = Inr lo \<and>
     array_max (spectral_axis L c1v) = Inr hi \<and>
     lb = lo - v2 \<and> (0 < v2 \<longrightarrow> lb < lo) \<and> (v2 < 0 \<longrightarrow> lo < lb) \<and>
     sd = kernel_stddev (deconvolved_width v1 v2) (sqrt (8 * ln 2)) \<and>
     cb = common_2beams L [beam L c1v, beam L c2v] \<and>
     css = convolve_to L
             (spectral_interpolate L
                (spectral_smooth L (spectral_slab L c2v lb hi) (Gaussian1DKernel L sd))
                (spectral_axis L c1v) True)
             cb \<and>
     cube2vel_spatialspectralsmooth e = Some css \<and>
     header L css ''RESTFRQ'' = Some rf \<and>
     th = (header L c1v)(''RESTFRQ'' \<mapsto> rf) \<and>
     tgthdr e = Some th \<and>
     cube2vel_reproj e = Some (reproject L css th)"
proof -
  from run_notebook_InrD [OF assms] obtain f1 f2 c1v c2v v1 v2 lo hi css rf where
    files: "filename_1 e = Some f1" "filename_2 e = Some f2"
    and c1v: "cube1vel e = Some c1v"
      "c1v = with_spectral_unit L (SpectralCube_read L f1 None) km_per_s ''radio'' rest_value_1"
    and c2v: "cube2vel e = Some c2v"
      "c2v = with_spectral_unit L (SpectralCube_read L f2 None) km_per_s ''radio'' rest_value_2"
    and nums: "index0 (np_diff (spectral_axis L c1v)) = Inr v1"
      "index0 (np_diff (spectral_axis L c2v)) = Inr v2"
      "array_min (spectral_axis L c1v) = Inr lo" "array_max (spectral_axis L c1v) = Inr hi"
    and css: "cube2vel_spatialspectralsmooth e = Some css"
      "css = convolve_to L
         (spectral_interpolate L
            (spectral_smooth L (spectral_slab L c2v (lo - v2) hi)
               (Gaussian1DKernel L (kernel_stddev (deconvolved_width v1 v2) sqrt_8_log_2)))
            (spectral_axis L c1v) True)
         (common_2beams L [beam L c1v, beam L c2v])"
    and rf: "getitem (header L css) ''RESTFRQ'' = Inr rf"
    and th: "tgthdr e = Some (setitem (header L c1v) ''RESTFRQ'' rf)"
    and out: "cube2vel_reproj e =
      Some (reproject L css (setitem (header L c1v) ''RESTFRQ'' rf))"
    by blast
  from rf have rf': "header L css ''RESTFRQ'' = Some rf"
    by (simp add: getitem_def split: option.splits)
  show ?thesis
    apply (rule exI [of _ f1], rule exI [of _ f2], rule exI [of _ c1v], rule exI [of _ c2v],
        rule exI [of _ v1], rule exI [of _ v2], rule exI [of _ lo], rule exI [of _ hi],
        rule exI [of _ "lo - v2"],
        rule exI [of _ "kernel_stddev (deconvolved_width v1 v2) sqrt_8_log_2"],
        rule exI [of _ "common_2beams L [beam L c1v, beam L c2v]"],
        rule exI [of _ css], rule exI [of _ rf],
        rule exI [of _ "setitem (header L c1v) ''RESTFRQ'' rf"])
    using files c1v c2v nums css rf' th out
    unfolding rest_value_1_def rest_value_2_def sqrt_8_log_2_def
    by (simp add: setitem_def)
qed

theorem pipeline_order_witness:
  "\<exists>e. run_notebook demo_lib ([], []) = Inr e \<and>
       cube2vel_reproj e =
         Some \<lparr>dc_dask = False, dc_axis = [0, 5, 10], dc_shape = (4, 4),
               dc_data = [4, 5, 6, 7, 8, 9], dc_beam = 3, dc_rest = 217.104984,
               dc_ops = [''read'', ''with_spectral_unit'', ''spectral_slab'',
                         ''spectral_smooth'', ''spectral_interpolate'', ''convolve_to'',
                         ''reproject'']\<rparr>"
proof -
  from demo_run obtain e where run: "run_notebook demo_lib ([], []) = Inr e" ..
  note files = demo_run_values(4,5) [OF run]
  from pipeline_order [OF run] files have
    "cube2vel_reproj e =
         Some \<lparr>dc_dask = False, dc_axis = [0, 5, 10], dc_shape = (4, 4),
               dc_data = [4, 5, 6, 7, 8, 9], dc_beam = 3, dc_rest = 217.104984,
               dc_ops = [''read'', ''with_spectral_unit'', ''spectral_slab'',
                         ''spectral_smooth'', ''spectral_interpolate'', ''convolve_to'',
                         ''reproject'']\<rparr>"
    by (elim exE conjE)
      (simp add: demo_lib_def demo_read_def demo_header_def demo_reproject_def index0_def
        array_min_def array_max_def url_1_def url_2_def)
  with run show ?thesis by blast
qed

text \<open>
  On a second cube whose velocity axis descends, here \<open>[12, 9, 6, 3, 0, - 3]\<close> against the
  first cube's \<open>[0, 5, 10]\<close>, the spacing is \<open>- 3\<close> and the slab is taken from \<open>3\<close> to
  \<open>10\<close>: the channels of the second cube at and below the first cube's minimum \<open>0\<close> are
  cut off.
\<close>

lemma slab_on_descending_axis:
  "and_then
     (cell_25 demo_lib
        ((empty_env ([], []))
           \<lparr>cube1vel := Some (demo_read (''cache/'' @ url_1) None),
            cube2vel := Some ((demo_read [] None)\<lparr>dc_axis := [12, 9, 6, 3, 0, - 3]\<rparr>)\<rparr>))
     (cell_29 demo_lib) =
   Inr ((empty_env ([], []))
          \<lparr>cube1vel := Some (demo_read (''cache/'' @ url_1) None),
           cube2vel := Some ((demo_read [] None)\<lparr>dc_axis := [12, 9, 6, 3, 0, - 3]\<rparr>),
           velocity_res_1 := Some 5, velocity_res_2 := Some (- 3),
           cube2vel_cutout :=
             Some (spectral_slab demo_lib
                     ((demo_read [] None)\<lparr>dc_axis := [12, 9, 6, 3, 0, - 3]\<rparr>) 3 10)\<rparr>) \<and>
   array_min (spectral_axis demo_lib (demo_read (''cache/'' @ url_1) None)) = Inr 0 \<and>
   spectral_axis demo_lib
     (spectral_slab demo_lib ((demo_read [] None)\<lparr>dc_axis := [12, 9, 6, 3, 0, - 3]\<rparr>) 3 10) =
     [9, 6, 3]"
  by (simp add: cell_25_def cell_29_def empty_env_def demo_lib_def demo_read_def index0_def
      array_min_def array_max_def url_1_def)

subsection \<open>The dask-backed pipeline\<close>





subsection \<open>The width of the smoothing kernel\<close>

lemma sqrt_8_log_2_pos: "0 < sqrt_8_log_2"
proof -
  have "0 < ln (2::real)" by simp
  then have "0 < 8 * ln (2::real)" by simp
  then show ?thesis unfolding sqrt_8_log_2_def by simp
qed

lemma deconvolved_width_Fin:
  assumes "\<bar>v2\<bar> \<le> \<bar>v1\<bar>"
  shows "deconvolved_width v1 v2 = Fin (sqrt (v1\<^sup>2 - v2\<^sup>2))"
proof -
  from assms have "v2\<^sup>2 \<le> v1\<^sup>2" by (simp add: abs_le_square_iff)
  then show ?thesis by (simp add: deconvolved_width_def pow_half_def)
qed

lemma deconvolved_width_NaN:
  assumes "\<not> \<bar>v2\<bar> \<le> \<bar>v1\<bar>"
  shows "deconvolved_width v1 v2 = NaN"
proof -
  from assms have "\<not> v2\<^sup>2 \<le> v1\<^sup>2" by (simp add: abs_le_square_iff)
  then show ?thesis by (simp add: deconvolved_width_def pow_half_def)
qed

lemma kernel_stddev_Fin: "kernel_stddev (Fin F) sqrt_8_log_2 = Fin (F / sqrt (8 * ln 2))"
  using sqrt_8_log_2_pos by (simp add: kernel_stddev_def flt_div_def sqrt_8_log_2_def)

lemma sqrt_16: "sqrt 16 = 4"
proof -
  have "sqrt 16 = sqrt (4\<^sup>2)" by simp
  also have "\<dots> = 4" by (simp only: real_sqrt_abs abs_numeral)
  finally show ?thesis .
qed

text \<open>
  Claim C3. With first channel spacings of 5 km/s and 3 km/s, the two kernel cells
  compute the width \<open>(5\<^sup>2 - 3\<^sup>2) ** 0.5 = 4\<close> and hand \<open>4 / sqrt (8 * ln 2)\<close> to
  \<^verbatim>\<open>Gaussian1DKernel\<close> as its standard deviation: the magnitude of the width in km/s
  over \<open>sqrt (8 * ln 2)\<close>, not divided by the channel width. The cell's comment wants the
  kernel in pixel units; in channels of the cube that is smoothed, 3 km/s each, a width of
  4 km/s has the standard deviation \<open>(4 / 3) / sqrt (8 * ln 2)\<close>, a different number.
\<close>

theorem kernel_stddev_in_km_per_s:
  "and_then (cell_31 L (e\<lparr>velocity_res_1 := Some 5, velocity_res_2 := Some 3\<rparr>)) (cell_32 L) =
     Inr (e\<lparr>velocity_res_1 := Some 5, velocity_res_2 := Some 3,
            fwhm_gaussian := Some (Fin 4), fwhm_to_sigma := Some (sqrt (8 * ln 2)),
            spectral_smoothing_kernel :=
              Some (Gaussian1DKernel L (Fin (4 / sqrt (8 * ln 2))))\<rparr>) \<and>
   4 / sqrt (8 * ln 2) \<noteq> (4 / 3) / sqrt (8 * ln (2::real))"
proof -
  have w: "deconvolved_width 5 3 = Fin 4"
    by (simp add: deconvolved_width_def pow_half_def sqrt_16)
  have run: "and_then (cell_31 L (e\<lparr>velocity_res_1 := Some 5, velocity_res_2 := Some 3\<rparr>))
        (cell_32 L) =
     Inr (e\<lparr>velocity_res_1 := Some 5, velocity_res_2 := Some 3,
            fwhm_gaussian := Some (Fin 4), fwhm_to_sigma := Some (sqrt (8 * ln 2)),
            spectral_smoothing_kernel :=
              Some (Gaussian1DKernel L (Fin (4 / sqrt (8 * ln 2))))\<rparr>)"
    by (simp add: cell_31_def cell_32_def Let_def w kernel_stddev_Fin) (simp add: sqrt_8_log_2_def)
  have pos: "0 < sqrt (8 * ln (2::real))"
    using sqrt_8_log_2_pos by (simp add: sqrt_8_log_2_def)
  then have ne: "4 / sqrt (8 * ln 2) \<noteq> (4 / 3) / sqrt (8 * ln (2::real))"
    by (simp add: field_simps)
  from run ne show ?thesis by simp
qed

text \<open>
  Claim C10. In the cell that computes \<^verbatim>\<open>fwhm_gaussian\<close> from the two channel
  spacings \<open>v1\<close> and \<open>v2\<close>, the result is a number other than NaN exactly when the
  magnitude of \<open>v1\<close> is at least that of \<open>v2\<close>. In that case it is a real \<open>F \<ge> 0\<close>, and
  the next cell divides it by \<open>sqrt (8 * ln 2)\<close>, which is not zero, and builds the kernel
  from the real standard deviation \<open>F / sqrt (8 * ln 2) \<ge> 0\<close>.
\<close>

theorem kernel_width_defined:
  assumes "velocity_res_1 e = Some v1" and "velocity_res_2 e = Some v2"
  shows "\<exists>fw.
     cell_31 L e = Inr (e\<lparr>fwhm_gaussian := Some fw\<rparr>) \<and>
     (fw \<noteq> NaN \<longleftrightarrow> \<bar>v2\<bar> \<le> \<bar>v1\<bar>) \<and>
     (\<bar>v2\<bar> \<le> \<bar>v1\<bar> \<longrightarrow>
        (\<exists>F. fw = Fin F \<and> F = sqrt (v1\<^sup>2 - v2\<^sup>2) \<and> 0 \<le> F \<and>
             sqrt (8 * ln 2) \<noteq> (0::real) \<and> 0 \<le> F / sqrt (8 * ln 2) \<and>
             cell_32 L (e\<lparr>fwhm_gaussian := Some fw\<rparr>) =
               Inr (e\<lparr>fwhm_gaussian := Some fw, fwhm_to_sigma := Some (sqrt (8 * ln 2)),
                      spectral_smoothing_kernel :=
                        Some (Gaussian1DKernel L (Fin (F / sqrt (8 * ln 2))))\<rparr>)))"
proof -
  let ?fw = "deconvolved_width v1 v2"
  have c31: "cell_31 L e = Inr (e\<lparr>fwhm_gaussian := Some ?fw\<rparr>)"
    using assms by (simp add: cell_31_def)
  have iff: "?fw \<noteq> NaN \<longleftrightarrow> \<bar>v2\<bar> \<le> \<bar>v1\<bar>"
    by (cases "\<bar>v2\<bar> \<le> \<bar>v1\<bar>") (simp_all add: deconvolved_width_Fin deconvolved_width_NaN)
  have nz: "sqrt (8 * ln 2) \<noteq> (0::real)"
    using sqrt_8_log_2_pos by (simp add: sqrt_8_log_2_def)
  have pos: "0 \<le> sqrt (v1\<^sup>2 - v2\<^sup>2) / sqrt (8 * ln 2)" if "\<bar>v2\<bar> \<le> \<bar>v1\<bar>"
  proof -
    from that have "0 \<le> v1\<^sup>2 - v2\<^sup>2" by (simp add: abs_le_square_iff)
    then have "0 \<le> sqrt (v1\<^sup>2 - v2\<^sup>2)" by simp
    moreover have "0 < sqrt (8 * ln (2::real))"
      using sqrt_8_log_2_pos by (simp add: sqrt_8_log_2_def)
    ultimately show ?thesis by (simp add: divide_nonneg_pos)
  qed
  have c32: "cell_32 L (e\<lparr>fwhm_gaussian := Some (Fin F)\<rparr>) =
               Inr (e\<lparr>fwhm_gaussian := Some (Fin F), fwhm_to_sigma := Some (sqrt (8 * ln 2)),
                      spectral_smoothing_kernel :=
                        Some (Gaussian1DKernel L (Fin (F / sqrt (8 * ln 2))))\<rparr>)" for F
    by (simp add: cell_32_def Let_def kernel_stddev_Fin) (simp add: sqrt_8_log_2_def)
  have rest: "\<exists>F. ?fw = Fin F \<and> F = sqrt (v1\<^sup>2 - v2\<^sup>2) \<and> 0 \<le> F \<and>
             sqrt (8 * ln 2) \<noteq> (0::real) \<and> 0 \<le> F / sqrt (8 * ln 2) \<and>
             cell_32 L (e\<lparr>fwhm_gaussian := Some ?fw\<rparr>) =
               Inr (e\<lparr>fwhm_gaussian := Some ?fw, fwhm_to_sigma := Some (sqrt (8 * ln 2)),
                      spectral_smoothing_kernel :=
                        Some (Gaussian1DKernel L (Fin (F / sqrt (8 * ln 2))))\<rparr>)"
    if le: "\<bar>v2\<bar> \<le> \<bar>v1\<bar>"
  proof -
    from le have "0 \<le> v1\<^sup>2 - v2\<^sup>2" by (simp add: abs_le_square_iff)
    then have nonneg: "0 \<le> sqrt (v1\<^sup>2 - v2\<^sup>2)" by simp
    show ?thesis
      apply (rule exI [of _ "sqrt (v1\<^sup>2 - v2\<^sup>2)"])
      using deconvolved_width_Fin [OF le] nonneg nz pos [OF le] c32 by simp
  qed
  show ?thesis
    apply (rule exI [of _ ?fw])
    using c31 iff rest by blast
qed

theorem kernel_width_defined_witness:
  "\<exists>F. cell_31 demo_lib
          ((empty_env ([], []))\<lparr>velocity_res_1 := Some 5, velocity_res_2 := Some 3\<rparr>) =
        Inr ((empty_env ([], []))\<lparr>velocity_res_1 := Some 5, velocity_res_2 := Some 3,
               fwhm_gaussian := Some (Fin F)\<rparr>) \<and> 0 \<le> F"
proof -
  let ?e = "(empty_env ([], []))\<lparr>velocity_res_1 := Some 5, velocity_res_2 := Some 3\<rparr>
              :: (demo_cube, nat, flt, real, real, demo_world) env"
  have a: "velocity_res_1 ?e = Some 5" and b: "velocity_res_2 ?e = Some 3"
    by simp_all
  have le: "\<bar>3::real\<bar> \<le> \<bar>5\<bar>" by simp
  from kernel_width_defined [OF a b, of demo_lib] le show ?thesis
    by auto
qed

subsection \<open>The first channel spacing\<close>

text \<open>
  Claim C9. With both velocity cubes assigned, the cell that takes
  \<^verbatim>\<open>np.diff(spectral_axis)[0]\<close> of each succeeds exactly when each spectral axis has at
  least two entries; then the two spacings are the second entry less the first of each
  axis (no other entry of the axes is read), and otherwise the cell raises IndexError.
\<close>

theorem first_spacing_in_bounds:
  assumes "cube1vel e = Some c1" and "cube2vel e = Some c2"
  shows "((\<exists>e'. cell_25 L e = Inr e') \<longleftrightarrow>
            2 \<le> length (spectral_axis L c1) \<and> 2 \<le> length (spectral_axis L c2)) \<and>
         (2 \<le> length (spectral_axis L c1) \<and> 2 \<le> length (spectral_axis L c2) \<longrightarrow>
            cell_25 L e =
              Inr (e\<lparr>velocity_res_1 := Some (spectral_axis L c1 ! 1 - spectral_axis L c1 ! 0),
                     velocity_res_2 := Some (spectral_axis L c2 ! 1 - spectral_axis L c2 ! 0)\<rparr>)) \<and>
         (\<not> (2 \<le> length (spectral_axis L c1) \<and> 2 \<le> length (spectral_axis L c2)) \<longrightarrow>
            cell_25 L e = Inl IndexError)"
  using assms by (simp add: cell_25_def index0_np_diff)

theorem first_spacing_in_bounds_witness:
  "cell_25 demo_lib
     ((empty_env ([], []))\<lparr>cube1vel := Some (demo_read ''a'' None),
                            cube2vel := Some (demo_read ''b'' None)\<rparr>) =
   Inr ((empty_env ([], []))\<lparr>cube1vel := Some (demo_read ''a'' None),
                               cube2vel := Some (demo_read ''b'' None),
                               velocity_res_1 := Some 3, velocity_res_2 := Some 3\<rparr>)"
proof -
  let ?e = "(empty_env ([], []))\<lparr>cube1vel := Some (demo_read ''a'' None),
                                  cube2vel := Some (demo_read ''b'' None)\<rparr>
              :: (demo_cube, nat, flt, real, real, demo_world) env"
  have a: "cube1vel ?e = Some (demo_read ''a'' None)"
    and b: "cube2vel ?e = Some (demo_read ''b'' None)"
    by simp_all
  have len: "2 \<le> length (spectral_axis demo_lib (demo_read ''a'' None))"
      "2 \<le> length (spectral_axis demo_lib (demo_read ''b'' None))"
    by (simp_all add: demo_lib_def demo_read_def)
  from first_spacing_in_bounds [OF a b, of demo_lib] len show ?thesis
    by (simp add: demo_lib_def demo_read_def)
qed

subsection \<open>Frequency to velocity\<close>

text \<open>
  Claim C4. In a run that reaches the end, each velocity cube is
  \<^verbatim>\<open>with_spectral_unit\<close> of the cube read from its file, with unit km/s, the radio
  convention and the rest value of its line: 139.483699 GHz for the first cube,
  217.104984 GHz for the second; \<^verbatim>\<open>cube1\<close> and \<^verbatim>\<open>cube2\<close> are still the cubes as
  read. That the conversion touches only the spectral axis is the library's behaviour:
  for every observation \<open>dat\<close> of a cube that \<^verbatim>\<open>with_spectral_unit\<close> leaves alone (the
  data values), each velocity cube has the \<open>dat\<close> of the cube it was converted from.
\<close>

theorem velocity_conversion:
  assumes "run_notebook L w = Inr e"
    and "\<forall>c u v r. dat (with_spectral_unit L c u v r) = dat c"
  shows "\<exists>f1 f2 c1 c2 c1v c2v.
     filename_1 e = Some f1 \<and> filename_2 e = Some f2 \<and>
     cube1 e = Some c1 \<and> c1 = SpectralCube_read L f1 None \<and>
     cube2 e = Some c2 \<and> c2 = SpectralCube_read L f2 None \<and>
     cube1vel e = Some c1v \<and>
     c1v = with_spectral_unit L c1 km_per_s ''radio'' \<lparr>qvalue = 139.483699, qunit = GHz\<rparr> \<and>
     cube2vel e = Some c2v \<and>
     c2v = with_spectral_unit L c2 km_per_s ''radio'' \<lparr>qvalue = 217.104984, qunit = GHz\<rparr> \<and>
     dat c1v = dat c1 \<and> dat c2v = dat c2"
proof -
  from run_notebook_InrD [OF assms(1)] obtain f1 f2 where
    names: "filename_1 e = Some f1" "filename_2 e = Some f2"
      "cube1 e = Some (SpectralCube_read L f1 None)"
      "cube2 e = Some (SpectralCube_read L f2 None)"
      "cube1vel e =
         Some (with_spectral_unit L (SpectralCube_read L f1 None) km_per_s ''radio'' rest_value_1)"
      "cube2vel e =
         Some (with_spectral_unit L (SpectralCube_read L f2 None) km_per_s ''radio'' rest_value_2)"
    by blast
  show ?thesis
    apply (rule exI [of _ f1], rule exI [of _ f2])
    using names assms(2) unfolding rest_value_1_def rest_value_2_def by simp
qed

theorem velocity_conversion_witness:
  "\<exists>e c1 c1v. run_notebook demo_lib ([], []) = Inr e \<and>
     cube1 e = Some c1 \<and> cube1vel e = Some c1v \<and> dc_data c1v = dc_data c1"
proof -
  from demo_run obtain e where run: "run_notebook demo_lib ([], []) = Inr e" ..
  have keep: "\<forall>c u v r. dc_data (with_spectral_unit demo_lib c u v r) = dc_data c"
    by (simp add: demo_lib_def)
  from velocity_conversion [OF run keep] obtain c1 c1v where
    "cube1 e = Some c1" "cube1vel e = Some c1v" "dc_data c1v = dc_data c1"
    by blast
  with run show ?thesis by blast
qed

subsection \<open>The common spectral grid\<close>

text \<open>
  Claim C7. The grid passed to \<^verbatim>\<open>spectral_interpolate\<close> is the spectral axis of the
  first velocity cube. For a library whose \<^verbatim>\<open>spectral_interpolate\<close> resamples onto
  the grid it is given, the resampled cube has the first velocity cube's spectral axis: the same
  values, the same length and the same first channel spacing \<^verbatim>\<open>velocity_res_1\<close>; its
  spatial axes are those of the smoothed cube it was interpolated from.
\<close>

theorem spectral_grid_shared:
  assumes "run_notebook L w = Inr e"
    and "resamples_onto_grid spatial L"
  shows "\<exists>c1v sm rs v1.
     cube1vel e = Some c1v \<and> cube2vel_smooth e = Some sm \<and>
     cube2vel_spectralresample e = Some rs \<and>
     rs = spectral_interpolate L sm (spectral_axis L c1v) True \<and>
     spectral_axis L rs = spectral_axis L c1v \<and>
     length (spectral_axis L rs) = length (spectral_axis L c1v) \<and>
     velocity_res_1 e = Some v1 \<and> index0 (np_diff (spectral_axis L rs)) = Inr v1 \<and>
     spatial rs = spatial sm"
proof -
  from run_notebook_InrD [OF assms(1)] obtain c1v sm v1 where
    names: "cube1vel e = Some c1v" "cube2vel_smooth e = Some sm"
      "cube2vel_spectralresample e = Some (spectral_interpolate L sm (spectral_axis L c1v) True)"
      "velocity_res_1 e = Some v1" "index0 (np_diff (spectral_axis L c1v)) = Inr v1"
    by blast
  show ?thesis
    apply (rule exI [of _ c1v], rule exI [of _ sm])
    using names assms(2) by (simp add: resamples_onto_grid_def)
qed

theorem spectral_grid_shared_witness:
  "\<exists>e c1v rs. run_notebook demo_lib ([], []) = Inr e \<and>
     cube1vel e = Some c1v \<and> cube2vel_spectralresample e = Some rs \<and>
     dc_axis rs = dc_axis c1v \<and> velocity_res_1 e = Some 5 \<and>
     index0 (np_diff (dc_axis rs)) = Inr 5"
proof -
  from demo_run obtain e where run: "run_notebook demo_lib ([], []) = Inr e" ..
  have grid: "resamples_onto_grid dc_shape demo_lib"
    by (simp add: resamples_onto_grid_def demo_lib_def)
  from spectral_grid_shared [OF run grid] obtain c1v rs v1 where
    "cube1vel e = Some c1v" "cube2vel_spectralresample e = Some rs"
    "spectral_axis demo_lib rs = spectral_axis demo_lib c1v"
    "velocity_res_1 e = Some v1" "index0 (np_diff (spectral_axis demo_lib rs)) = Inr v1"
    by blast
  with run demo_run_values(1) [OF run] show ?thesis
    by (auto simp: demo_lib_def)
qed

subsection \<open>The common beam\<close>

lemma demo_run_beams:
  assumes "run_notebook demo_lib ([], []) = Inr e"
  shows "map_option dc_beam (cube1vel e) = Some 3"
    and "map_option dc_beam (cube2vel e) = Some 2"
  using assms unfolding run_notebook_def notebook_cells_def
  by (auto simp add: cell_defs empty_env_def shown_def Let_def demo_lib_def demo_download_def
      demo_read_def demo_header_def demo_reproject_def index0_def array_min_def array_max_def getitem_def
      setitem_def url_1_def url_2_def)

text \<open>
  Claim C6. The beam passed to \<^verbatim>\<open>convolve_to\<close>, in both pipelines, is
  \<^verbatim>\<open>common_2beams\<close> of the beams of the two velocity cubes. For a library whose
  \<^verbatim>\<open>common_2beams\<close> returns the smallest common beam (at least as large as each of the
  two beams, and of the smallest area among the beams that are), that beam is at least as
  large as the beam of each velocity cube, no beam that is at least as large as both has
  less area, and when one of the two beams is at least as large as the other, the
  common beam is that beam.
\<close>

theorem common_beam_least:
  assumes "run_notebook L w = Inr e"
    and "common_beam_contract le area (common_2beams L)"
    and "beam_order le area"
  shows "\<exists>c1v c2v rs d4 cb.
     cube1vel e = Some c1v \<and> cube2vel e = Some c2v \<and>
     common_beam e = Some cb \<and> cb = common_2beams L [beam L c1v, beam L c2v] \<and>
     cube2vel_spectralresample e = Some rs \<and>
     cube2vel_spatialspectralsmooth e = Some (convolve_to L rs cb) \<and>
     cube2daskvel_spectralresample e = Some d4 \<and>
     cube2daskvel_spatialspectralsmooth e = Some (convolve_to L d4 cb) \<and>
     le (beam L c1v) cb \<and> le (beam L c2v) cb \<and>
     (\<forall>b. le (beam L c1v) b \<and> le (beam L c2v) b \<longrightarrow> area cb \<le> area b) \<and>
     (le (beam L c2v) (beam L c1v) \<longrightarrow> cb = beam L c1v) \<and>
     (le (beam L c1v) (beam L c2v) \<longrightarrow> cb = beam L c2v)"
proof -
  from run_notebook_InrD [OF assms(1)] obtain c1v c2v rs d4 where
    names: "cube1vel e = Some c1v" "cube2vel e = Some c2v"
      "common_beam e = Some (common_2beams L [beam L c1v, beam L c2v])"
      "cube2vel_spectralresample e = Some rs"
      "cube2vel_spatialspectralsmooth e =
         Some (convolve_to L rs (common_2beams L [beam L c1v, beam L c2v]))"
      "cube2daskvel_spectralresample e = Some d4"
      "cube2daskvel_spatialspectralsmooth e =
         Some (convolve_to L d4 (common_2beams L [beam L c1v, beam L c2v]))"
    by blast
  let ?a = "beam L c1v" and ?b = "beam L c2v"
  let ?cb = "common_2beams L [?a, ?b]"
  from assms(2) have ub: "le ?a ?cb" "le ?b ?cb"
    and least: "\<And>c. le ?a c \<Longrightarrow> le ?b c \<Longrightarrow> area ?cb \<le> area c"
    unfolding common_beam_contract_def by blast+
  from assms(3) have refl: "\<And>x. le x x"
    and tight: "\<And>x y. le x y \<Longrightarrow> area y \<le> area x \<Longrightarrow> x = y"
    unfolding beam_order_def by blast+
  have dom1: "?cb = ?a" if "le ?b ?a"
  proof -
    from least [OF refl that] have "area ?cb \<le> area ?a" .
    from tight [OF ub(1) this] show ?thesis by simp
  qed
  have dom2: "?cb = ?b" if "le ?a ?b"
  proof -
    from least [OF that refl] have "area ?cb \<le> area ?b" .
    from tight [OF ub(2) this] show ?thesis by simp
  qed
  show ?thesis
    apply (rule exI [of _ c1v], rule exI [of _ c2v], rule exI [of _ rs], rule exI [of _ d4],
        rule exI [of _ ?cb])
    using names ub least dom1 dom2 by simp
qed

lemma demo_common_beam: "common_beam_contract (\<le>) real (common_2beams demo_lib)"
  by (auto simp: common_beam_contract_def demo_lib_def)

lemma demo_beam_order: "beam_order (\<le>) (real :: nat \<Rightarrow> real)"
  by (auto simp: beam_order_def)

theorem common_beam_least_witness:
  "\<exists>e c1v. run_notebook demo_lib ([], []) = Inr e \<and> cube1vel e = Some c1v \<and>
     dc_beam c1v = 3 \<and> common_beam e = Some 3"
proof -
  from demo_run obtain e where run: "run_notebook demo_lib ([], []) = Inr e" ..
  from common_beam_least [OF run demo_common_beam demo_beam_order] obtain c1v c2v cb where
    "cube1vel e = Some c1v" "cube2vel e = Some c2v" "common_beam e = Some cb"
    "beam demo_lib c2v \<le> beam demo_lib c1v \<longrightarrow> cb = beam demo_lib c1v"
    by blast
  with run demo_run_beams [OF run] show ?thesis
    by (auto simp: demo_lib_def)
qed

subsection \<open>The target header\<close>

text \<open>Every cell but the seventh of the list, cell 17, leaves \<^verbatim>\<open>cube1vel\<close> as it is.\<close>

lemma cube1vel_frame:
  assumes "c \<in> set (take 6 (notebook_cells L) @ drop 7 (notebook_cells L))"
    and "c x = Inr y"
  shows "cube1vel y = cube1vel x"
  using assms unfolding notebook_cells_def
  by (auto simp: cell_defs shown_def Let_def and_then_Inr_iff split: prod.splits)

lemma demo_run_headers:
  assumes "run_notebook demo_lib ([], []) = Inr e"
  shows "\<exists>c1v css. cube1vel e = Some c1v \<and> demo_header c1v ''NAXIS3'' = Some 3 \<and>
           demo_header c1v ''RESTFRQ'' = Some 139.483699 \<and>
           cube2vel_spatialspectralsmooth e = Some css \<and>
           demo_header css ''RESTFRQ'' = Some 217.104984"
  using assms unfolding run_notebook_def notebook_cells_def
  by (auto simp add: cell_defs empty_env_def shown_def Let_def demo_lib_def demo_download_def
      demo_read_def demo_header_def demo_reproject_def index0_def array_min_def array_max_def getitem_def
      setitem_def url_1_def url_2_def rest_value_1_def rest_value_2_def)

text \<open>
  Claim C8. The \<^verbatim>\<open>.header\<close> property returns a header value of its own (the
  notebook's comment: a copy), so the item assignment changes the name \<^verbatim>\<open>tgthdr\<close> and
  nothing else. In a run that reaches the end, \<^verbatim>\<open>tgthdr\<close> has under \<^verbatim>\<open>RESTFRQ\<close> the
  \<^verbatim>\<open>RESTFRQ\<close> of the header of the convolved second cube and under every other key
  what the header of the first velocity cube has; it is the header both reprojections
  are given. The first velocity cube is the cube assigned in cell 17, and no other cell
  of the notebook changes it.
\<close>

theorem target_header:
  assumes "run_notebook L w = Inr e"
  shows "\<exists>f1 c1v css d5 th rf.
     filename_1 e = Some f1 \<and> cube1vel e = Some c1v \<and>
     c1v = with_spectral_unit L (SpectralCube_read L f1 None) km_per_s ''radio''
             \<lparr>qvalue = 139.483699, qunit = GHz\<rparr> \<and>
     cube2vel_spatialspectralsmooth e = Some css \<and>
     cube2daskvel_spatialspectralsmooth e = Some d5 \<and>
     tgthdr e = Some th \<and>
     header L css ''RESTFRQ'' = Some rf \<and> th ''RESTFRQ'' = Some rf \<and>
     (\<forall>k. k \<noteq> ''RESTFRQ'' \<longrightarrow> th k = header L c1v k) \<and>
     cube2vel_reproj e = Some (reproject L css th) \<and>
     cube2daskvel_reproj e = Some (reproject L d5 th) \<and>
     (\<forall>c \<in> set (take 6 (notebook_cells L) @ drop 7 (notebook_cells L)).
        \<forall>x y. c x = Inr y \<longrightarrow> cube1vel y = cube1vel x)"
proof -
  from run_notebook_InrD [OF assms] obtain f1 c1v css d5 rf where
    names: "filename_1 e = Some f1" "cube1vel e = Some c1v"
      "c1v = with_spectral_unit L (SpectralCube_read L f1 None) km_per_s ''radio'' rest_value_1"
      "cube2vel_spatialspectralsmooth e = Some css"
      "cube2daskvel_spatialspectralsmooth e = Some d5"
      "getitem (header L css) ''RESTFRQ'' = Inr rf"
      "tgthdr e = Some (setitem (header L c1v) ''RESTFRQ'' rf)"
      "cube2vel_reproj e = Some (reproject L css (setitem (header L c1v) ''RESTFRQ'' rf))"
      "cube2daskvel_reproj e = Some (reproject L d5 (setitem (header L c1v) ''RESTFRQ'' rf))"
    by blast
  from names(6) have rf: "header L css ''RESTFRQ'' = Some rf"
    by (simp add: getitem_def split: option.splits)
  have frame: "\<forall>c \<in> set (take 6 (notebook_cells L) @ drop 7 (notebook_cells L)).
        \<forall>x y. c x = Inr y \<longrightarrow> cube1vel y = cube1vel x"
    using cube1vel_frame by blast
  show ?thesis
    apply (rule exI [of _ f1], rule exI [of _ c1v], rule exI [of _ css], rule exI [of _ d5],
        rule exI [of _ "setitem (header L c1v) ''RESTFRQ'' rf"], rule exI [of _ rf])
    using names(1-5,7-9) rf frame unfolding rest_value_1_def
    by (simp add: setitem_def)
qed

theorem target_header_witness:
  "\<exists>e th. run_notebook demo_lib ([], []) = Inr e \<and> tgthdr e = Some th \<and>
     th ''RESTFRQ'' = Some 217.104984 \<and> th ''NAXIS3'' = Some 3"
proof -
  from demo_run obtain e where run: "run_notebook demo_lib ([], []) = Inr e" ..
  from target_header [OF run] obtain c1v css th rf where
    t: "cube1vel e = Some c1v" "cube2vel_spatialspectralsmooth e = Some css"
      "tgthdr e = Some th" "header demo_lib css ''RESTFRQ'' = Some rf"
      "th ''RESTFRQ'' = Some rf"
      "\<forall>k. k \<noteq> ''RESTFRQ'' \<longrightarrow> th k = header demo_lib c1v k"
    by blast
  from t(6) have "th ''NAXIS3'' = header demo_lib c1v ''NAXIS3''" by simp
  with t demo_run_headers [OF run] have
    "th ''RESTFRQ'' = Some 217.104984 \<and> th ''NAXIS3'' = Some 3"
    by (auto simp: demo_lib_def)
  with run t(3) show ?thesis by blast
qed

subsection \<open>The downloads\<close>

lemma url_1_neq_url_2: "url_1 \<noteq> url_2"
  by (simp add: url_1_def url_2_def)

lemma download_step:
  assumes "cache_contract dl cached fetched" and "dl u True w = (f, w')"
  shows "cached w' u = Some f"
    and "u' \<noteq> u \<Longrightarrow> cached w' u' = cached w u'"
    and "fetched w' = fetched w @ filter (\<lambda>x. cached w x = None) [u]"
    and "cached w u = Some g \<Longrightarrow> f = g \<and> cached w' = cached w \<and> fetched w' = fetched w"
proof -
  from assms(1) have all:
    "\<forall>u w. case dl u True w of
       (f, w') \<Rightarrow>
         (case cached w u of
            Some g \<Rightarrow> f = g \<and> cached w' = cached w \<and> fetched w' = fetched w
          | None \<Rightarrow> cached w' = (cached w)(u \<mapsto> f) \<and> fetched w' = fetched w @ [u])"
    unfolding cache_contract_def .
  have
    "case dl u True w of
       (f, w') \<Rightarrow>
         (case cached w u of
            Some g \<Rightarrow> f = g \<and> cached w' = cached w \<and> fetched w' = fetched w
          | None \<Rightarrow> cached w' = (cached w)(u \<mapsto> f) \<and> fetched w' = fetched w @ [u])"
    by (rule spec [OF spec [OF all]])
  with assms(2) have h:
    "case cached w u of
       Some g \<Rightarrow> f = g \<and> cached w' = cached w \<and> fetched w' = fetched w
     | None \<Rightarrow> cached w' = (cached w)(u \<mapsto> f) \<and> fetched w' = fetched w @ [u]"
    by simp
  show "cached w' u = Some f"
    using h by (cases "cached w u") simp_all
  show "cached w' u' = cached w u'" if "u' \<noteq> u"
    using h that by (cases "cached w u") simp_all
  show "fetched w' = fetched w @ filter (\<lambda>x. cached w x = None) [u]"
    using h by (cases "cached w u") simp_all
  show "f = g \<and> cached w' = cached w \<and> fetched w' = fetched w" if "cached w u = Some g"
    using h that by simp
qed

lemma run_notebook_downloads:
  assumes "run_notebook L w = Inr e"
  shows "\<exists>f1 w1 f2.
     download_file L url_1 True w = (f1, w1) \<and>
     download_file L url_2 True w1 = (f2, world e) \<and>
     filename_1 e = Some f1 \<and> filename_2 e = Some f2"
  using run_notebook_InrD [OF assms] by (elim exE conjE) simp

lemma demo_rerun:
  "\<exists>e. run_notebook demo_lib
          ([(url_2, ''cache/'' @ url_2), (url_1, ''cache/'' @ url_1)], [url_1, url_2]) = Inr e"
  unfolding run_notebook_def notebook_cells_def
  by (simp add: cell_defs empty_env_def shown_def Let_def demo_lib_def demo_download_def
      demo_read_def demo_header_def demo_reproject_def index0_def array_min_def array_max_def getitem_def
      setitem_def url_1_def url_2_def)

lemma demo_cache: "cache_contract (download_file demo_lib) (\<lambda>w. map_of (fst w)) snd"
  by (auto simp: cache_contract_def demo_lib_def demo_download_def split: option.splits)

text \<open>
  Claim C5. The notebook calls \<^verbatim>\<open>download_file\<close> twice, with \<^verbatim>\<open>cache=True\<close>, on its
  two fixed URLs, and these calls alone act on the state of cache and network: the state
  at the end of a run is the state after the second call. For a library whose
  \<^verbatim>\<open>download_file\<close> keeps to its documented cache behaviour, a run downloads those of
  the two URLs that the cache did not hold, in this order, and nothing else, and leaves
  both in the cache; a second run started on the state the first one left downloads
  nothing, leaves the cache as it is, and gets the same two filenames.
\<close>

theorem downloads_cached:
  assumes "cache_contract (download_file L) cached fetched"
    and "run_notebook L w = Inr e"
    and "run_notebook L (world e) = Inr e'"
  shows "\<exists>f1 w1 f2.
     download_file L url_1 True w = (f1, w1) \<and>
     download_file L url_2 True w1 = (f2, world e) \<and>
     filename_1 e = Some f1 \<and> filename_2 e = Some f2 \<and>
     fetched (world e) = fetched w @ filter (\<lambda>u. cached w u = None) [url_1, url_2] \<and>
     cached (world e) url_1 = Some f1 \<and> cached (world e) url_2 = Some f2 \<and>
     filename_1 e' = Some f1 \<and> filename_2 e' = Some f2 \<and>
     fetched (world e') = fetched (world e) \<and> cached (world e') = cached (world e)"
proof -
  from run_notebook_downloads [OF assms(2)] obtain f1 w1 f2 where
    d1: "download_file L url_1 True w = (f1, w1)"
    and d2: "download_file L url_2 True w1 = (f2, world e)"
    and n1: "filename_1 e = Some f1" "filename_2 e = Some f2"
    by blast
  from run_notebook_downloads [OF assms(3)] obtain g1 w3 g2 where
    d3: "download_file L url_1 True (world e) = (g1, w3)"
    and d4: "download_file L url_2 True w3 = (g2, world e')"
    and n2: "filename_1 e' = Some g1" "filename_2 e' = Some g2"
    by blast
  note s1 = download_step [OF assms(1) d1]
  note s2 = download_step [OF assms(1) d2]
  note s3 = download_step [OF assms(1) d3]
  note s4 = download_step [OF assms(1) d4]
  have c1: "cached w1 url_1 = Some f1" by (rule s1(1))
  have c12: "cached w1 url_2 = cached w url_2"
    using url_1_neq_url_2 by (intro s1(2)) simp
  have c2: "cached (world e) url_2 = Some f2" by (rule s2(1))
  have c21: "cached (world e) url_1 = Some f1"
    using s2(2) [of url_1] url_1_neq_url_2 c1 by simp
  have log: "fetched (world e) = fetched w @ filter (\<lambda>u. cached w u = None) [url_1, url_2]"
    using s1(3) s2(3) c12 by simp
  from s3(4) [OF c21] have h3: "g1 = f1" "cached w3 = cached (world e)"
      "fetched w3 = fetched (world e)"
    by simp_all
  from c2 h3(2) have "cached w3 url_2 = Some f2" by simp
  from s4(4) [OF this] have h4: "g2 = f2" "cached (world e') = cached w3"
      "fetched (world e') = fetched w3"
    by simp_all
  show ?thesis
    apply (rule exI [of _ f1], rule exI [of _ w1], rule exI [of _ f2])
    using d1 d2 n1 n2 log c21 c2 h3 h4 by simp
qed

theorem downloads_cached_witness:
  "\<exists>e e'. run_notebook demo_lib ([], []) = Inr e \<and>
     run_notebook demo_lib (world e) = Inr e' \<and>
     filename_1 e' = filename_1 e \<and> filename_2 e' = filename_2 e \<and>
     snd (world e) = [url_1, url_2] \<and> snd (world e') = [url_1, url_2]"
proof -
  from demo_run obtain e where run: "run_notebook demo_lib ([], []) = Inr e" ..
  note w = demo_run_values(3) [OF run]
  from demo_rerun w obtain e' where rerun: "run_notebook demo_lib (world e) = Inr e'"
    by auto
  from downloads_cached [OF demo_cache run rerun] have
    "filename_1 e' = filename_1 e \<and> filename_2 e' = filename_2 e \<and>
     snd (world e') = snd (world e)"
    by auto
  with run rerun w show ?thesis by auto
qed

end
